theory Spec2Isabelle
  imports Main "HOL-Library.Sublist"
begin

section \<open>Whisper batch transcription: a model of \<open>index.js\<close>\<close>

text \<open>
  The program is a sequential batch driver: it checks two preconditions (credential and
  model), lists the audio files under a source directory, sends each one to a remote
  transcription service and writes the returned text to a flat output directory.

  The model below follows \<open>index.js\<close> function by function. Everything the script does
  to the outside (console output, spinner messages, file-system calls, calls of the
  remote service) is recorded, in order, as a list of events; the outside itself (the
  environment variable, the directory tree, the answers of the service, the calls that
  raise) is a value of the record \<open>world\<close>. Presentation-only wrappers (the colours of
  \<open>chalk\<close>) are left out; the text of every message is kept.

  What the module does while it is loaded comes before \<open>main\<close>. The options parsed by
  \<open>commander\<close> are a value of the record \<open>opts\<close>. The client object of lines 36 to 38
  is two fields of the world: what its constructor throws, if anything, and what its
  transcription call answers. \<open>script\<close> is the whole run, the construction of the client
  followed by \<open>main\<close>.
\<close>

subsection \<open>Strings and numbers as JavaScript prints them\<close>

text \<open>Template literals print a non-negative integer in decimal.\<close>

definition digit_char :: "nat \<Rightarrow> char" where
  "digit_char d = ''0123456789'' ! d"

function show_nat :: "nat \<Rightarrow> string" where
  "show_nat n = (if n < 10 then [digit_char n] else show_nat (n div 10) @ [digit_char (n mod 10)])"
  by pat_completeness auto
termination
  by (relation "measure (\<lambda>n. n)") auto

declare show_nat.simps [simp del]

text \<open>\<open>Array.prototype.join\<close> with a separator.\<close>

fun join_with :: "string \<Rightarrow> string list \<Rightarrow> string" where
  "join_with sep [] = []"
| "join_with sep [x] = x"
| "join_with sep (x # y # ys) = x @ sep @ join_with sep (y # ys)"

text \<open>
  \<open>String.prototype.toLowerCase\<close>, on the letters A to Z. Every other character is
  left as it is: the result is only ever compared with the ASCII entries of
  \<open>SUPPORTED_FORMATS\<close>, and no character outside A to Z lowercases to one of the letters
  occurring there.
\<close>

definition lower_char :: "char \<Rightarrow> char" where
  "lower_char c =
     (case map_of (zip ''ABCDEFGHIJKLMNOPQRSTUVWXYZ'' ''abcdefghijklmnopqrstuvwxyz'') c of
        Some l \<Rightarrow> l
      | None \<Rightarrow> c)"

definition toLowerCase :: "string \<Rightarrow> string" where
  "toLowerCase s = map lower_char s"

subsection \<open>The \<open>path\<close> module of Node.js (POSIX flavour)\<close>

text \<open>
  The functions of \<open>path\<close> are library code; they are modelled after the documented
  behaviour of \<open>path.posix\<close>. A path is a string with \<open>/\<close> as separator.
\<close>

definition is_slash :: "char \<Rightarrow> bool" where
  "is_slash c = (c = CHR ''/'')"

definition is_dot :: "char \<Rightarrow> bool" where
  "is_dot c = (c = CHR ''.'')"

text \<open>The last component of a path, trailing separators ignored.\<close>

definition last_component :: "string \<Rightarrow> string" where
  "last_component p = rev (takeWhile (\<lambda>c. \<not> is_slash c) (dropWhile is_slash (rev p)))"

text \<open>
  \<open>path.extname\<close>: from the last dot of the last component to its end; empty when the
  component has no dot, when its only dot is its first character, and for \<open>..\<close>.
\<close>

definition component_ext :: "string \<Rightarrow> string" where
  "component_ext c =
     (let ext = rev (takeWhile (\<lambda>x. \<not> is_dot x) (rev c));
          stem = rev (drop 1 (dropWhile (\<lambda>x. \<not> is_dot x) (rev c)))
      in if CHR ''.'' \<notin> set c \<or> stem = [] \<or> c = ''..'' then [] else CHR ''.'' # ext)"

definition extname :: "string \<Rightarrow> string" where
  "extname p = component_ext (last_component p)"

text \<open>
  \<open>path.basename(p, suffix)\<close>; the call with one argument is \<open>basename p []\<close>, which
  Node treats like an absent suffix. A suffix is removed when the last component ends
  with it and is not the suffix alone.
\<close>

definition ends_with :: "string \<Rightarrow> string \<Rightarrow> bool" where
  "ends_with c sfx = (length sfx \<le> length c \<and> drop (length c - length sfx) c = sfx)"

definition basename :: "string \<Rightarrow> string \<Rightarrow> string" where
  "basename p sfx =
     (if sfx \<noteq> [] \<and> length sfx \<le> length p then
        (if sfx = p then []
         else let c = last_component p
              in if ends_with c sfx \<and> c \<noteq> sfx then take (length c - length sfx) c else c)
      else last_component p)"

text \<open>
  \<open>path.join(dir, name)\<close> for the calls the script makes: \<open>dir\<close> is an absolute,
  normalised directory path and \<open>name\<close> a single entry name, so normalisation has
  nothing to remove except the doubled separator below the root.
\<close>

definition path_join :: "string \<Rightarrow> string \<Rightarrow> string" where
  "path_join dir name = (if dir = ''/'' then dir @ name else dir @ ''/'' @ name)"

text \<open>
  \<open>path.relative(from, to)\<close> for a \<open>to\<close> below \<open>from\<close>, which is all the script asks
  for (every discovered file lies below the source directory): the part of \<open>to\<close> after
  \<open>from\<close> and the separator. Any other \<open>to\<close> is returned unchanged.
\<close>

definition path_relative :: "string \<Rightarrow> string \<Rightarrow> string" where
  "path_relative from to =
     (if take (length from + 1) to = from @ ''/'' then drop (length from + 1) to else to)"

subsection \<open>Data\<close>

text \<open>An error object; only its \<open>message\<close> is read by the script.\<close>

datatype err = Error (message: string)

text \<open>
  A directory listing as \<open>readdir(dir, {withFileTypes: true})\<close> returns it: entries in
  listing order, each one a directory (\<open>isDirectory()\<close> is true) with its own listing,
  or anything else. A symbolic link is not a directory for \<open>isDirectory()\<close>, so the tree
  is finite.
\<close>

datatype dirent = File string | Dir string "dirent list"

text \<open>The options parsed by \<open>commander\<close>; \<open>--prompt\<close> has no default.\<close>

record opts =
  opt_model :: string
  opt_language :: string
  opt_prompt :: "string option"
  opt_debug :: bool

text \<open>
  The argument object of \<open>openai.audio.transcriptions.create\<close>. A property whose value
  is \<open>undefined\<close> is \<open>None\<close>: the client sends no such parameter.
\<close>

record request =
  req_file :: string
  req_model :: string
  req_language :: "string option"
  req_prompt :: "string option"

text \<open>
  The outside world of one run. \<open>new_OpenAI_error\<close> is the constructor of the client:
  the error it throws for the \<open>apiKey\<close> it is given (\<open>None\<close> for \<open>undefined\<close>), if it
  throws; the client of the \<open>openai\<close> package throws for a key that is not given and
  accepts every string. The three other \<open>_error\<close> fields say which file-system calls
  raise, and with what; \<open>transcriptions_create\<close> is the remote service, which either
  rejects with an error or resolves to the recognised text.
\<close>

record world =
  OPENAI_API_KEY :: "string option"
  new_OpenAI_error :: "string option \<Rightarrow> err option"
  dirname :: string
  source_entries :: "dirent list"
  mkdir_error :: "string \<Rightarrow> err option"
  readdir_error :: "string \<Rightarrow> err option"
  writeFile_error :: "string \<Rightarrow> string \<Rightarrow> err option"
  transcriptions_create :: "request \<Rightarrow> err + string"

text \<open>
  What the script does to the outside, in order. \<open>UncaughtException\<close> is the report of
  the runtime for an error that nothing catches.
\<close>

datatype event =
    UncaughtException err
  | ConsoleLog string
  | ConsoleError string
  | ConsoleErrorObject err
  | SpinnerStart string
  | SpinnerSucceed string
  | SpinnerFail string
  | Mkdir string
  | Readdir string
  | Create request
  | WriteFile string string

record run =
  trace :: "event list"
  exit_status :: nat

subsection \<open>Constants of the script\<close>

definition SOURCE_DIR :: "world \<Rightarrow> string" where
  "SOURCE_DIR w = path_join (dirname w) ''source''"

definition OUTPUT_DIR :: "world \<Rightarrow> string" where
  "OUTPUT_DIR w = path_join (dirname w) ''transcriptions''"

definition MODELS :: "(string \<times> string) list" where
  "MODELS =
     [(''whisper-1'', ''OpenAI Whisper (most accurate)''),
      (''whisper-1-quantized'', ''OpenAI Whisper (optimized)'')]"

definition SUPPORTED_FORMATS :: "string list" where
  "SUPPORTED_FORMATS = [''.mp3'', ''.mp4'', ''.mpeg'', ''.mpga'', ''.m4a'', ''.wav'', ''.webm'']"

subsection \<open>\<open>findAudioFiles\<close>\<close>

text \<open>
  \<open>findAudioFiles w dir files\<close> is the call \<open>findAudioFiles(dir)\<close> in a world where
  \<open>dir\<close> holds \<open>files\<close>; \<open>for_files\<close> is its loop, with \<open>audioFiles\<close> the array built
  so far. A listing that cannot be read raises, and the error leaves every enclosing
  call.
\<close>

fun findAudioFiles :: "world \<Rightarrow> string \<Rightarrow> dirent list \<Rightarrow> event list \<times> (err + string list)"
  and for_files :: "world \<Rightarrow> string \<Rightarrow> dirent list \<Rightarrow> string list \<Rightarrow> event list \<times> (err + string list)"
where
  "findAudioFiles w dir files =
     (case readdir_error w dir of
        Some e \<Rightarrow> ([Readdir dir], Inl e)
      | None \<Rightarrow>
          (case for_files w dir files [] of (evs, r) \<Rightarrow> (Readdir dir # evs, r)))"
| "for_files w dir [] audioFiles = ([], Inr audioFiles)"
| "for_files w dir (File name # rest) audioFiles =
     (let filePath = path_join dir name
      in if toLowerCase (extname name) \<in> set SUPPORTED_FORMATS
         then for_files w dir rest (audioFiles @ [filePath])
         else for_files w dir rest audioFiles)"
| "for_files w dir (Dir name sub # rest) audioFiles =
     (let filePath = path_join dir name
      in case findAudioFiles w filePath sub of
           (evs, Inl e) \<Rightarrow> (evs, Inl e)
         | (evs, Inr nestedFiles) \<Rightarrow>
             (case for_files w dir rest (audioFiles @ nestedFiles) of
                (evs', r) \<Rightarrow> (evs @ evs', r)))"

subsection \<open>Looking a model up in \<open>MODELS\<close>\<close>

text \<open>
  \<open>MODELS\<close> is an object literal, so \<open>MODELS[key]\<close> finds the own properties first and
  then the properties every object inherits from \<open>Object.prototype\<close>; only a key found
  in neither gives \<open>undefined\<close>.
\<close>

definition Object_prototype_functions :: "string list" where
  "Object_prototype_functions =
     [''__defineGetter__'', ''__defineSetter__'', ''hasOwnProperty'', ''__lookupGetter__'',
      ''__lookupSetter__'', ''isPrototypeOf'', ''propertyIsEnumerable'', ''toString'',
      ''valueOf'', ''toLocaleString'']"

datatype js_value =
    JsString string
  | JsFunction string
  | JsPrototypeObject
  | JsUndefined

definition MODELS_get :: "string \<Rightarrow> js_value" where
  "MODELS_get key =
     (case map_of MODELS key of
        Some description \<Rightarrow> JsString description
      | None \<Rightarrow>
          if key = ''constructor'' then JsFunction ''Object''
          else if key = ''__proto__'' then JsPrototypeObject
          else if key \<in> set Object_prototype_functions then JsFunction key
          else JsUndefined)"

text \<open>Truthiness, and the text a template literal prints for a value.\<close>

fun truthy :: "js_value \<Rightarrow> bool" where
  "truthy (JsString s) = (s \<noteq> [])"
| "truthy (JsFunction f) = True"
| "truthy JsPrototypeObject = True"
| "truthy JsUndefined = False"

fun js_to_string :: "js_value \<Rightarrow> string" where
  "js_to_string (JsString s) = s"
| "js_to_string (JsFunction f) = ''function '' @ f @ ''() { [native code] }''"
| "js_to_string JsPrototypeObject = ''[object Object]''"
| "js_to_string JsUndefined = ''undefined''"

text \<open>A string, possibly absent, used as a condition: absent and empty are falsy.\<close>

fun truthy_string :: "string option \<Rightarrow> bool" where
  "truthy_string None = False"
| "truthy_string (Some s) = (s \<noteq> [])"

subsection \<open>\<open>transcribeAudio\<close>\<close>

text \<open>
  The result is the recognised text, or \<open>None\<close> for the \<open>null\<close> returned by the
  \<open>catch\<close> branch.
\<close>

definition transcribeAudio ::
  "world \<Rightarrow> opts \<Rightarrow> string \<Rightarrow> string \<Rightarrow> string \<Rightarrow> string option \<Rightarrow> event list \<times> string option"
where
  "transcribeAudio w options filePath model language prompt =
     (let req = \<lparr>req_file = filePath,
                 req_model = model,
                 req_language = (if language \<noteq> ''auto'' then Some language else None),
                 req_prompt = prompt\<rparr>
      in case transcriptions_create w req of
           Inr text \<Rightarrow> ([Create req], Some text)
         | Inl error \<Rightarrow>
             ([Create req,
               ConsoleError (''Error transcribing '' @ basename filePath [] @ '':''),
               ConsoleError (message error)]
              @ (if opt_debug options then [ConsoleErrorObject error] else []),
              None))"

subsection \<open>\<open>main\<close>\<close>

definition rule_line :: string where
  "rule_line = replicate 50 CHR ''=''"

definition banner :: "event list" where
  "banner =
     [ConsoleLog rule_line, ConsoleLog ''Whisper Audio Transcription App'', ConsoleLog rule_line]"

definition debug_information :: "world \<Rightarrow> opts \<Rightarrow> event list" where
  "debug_information w options =
     (if opt_debug options then
        [ConsoleLog ''Debug information:'',
         ConsoleLog (''  - Model: '' @ opt_model options
                     @ '' ('' @ js_to_string (MODELS_get (opt_model options)) @ '')''),
         ConsoleLog (''  - Language: '' @ opt_language options),
         ConsoleLog (''  - Prompt: ''
                     @ (if truthy_string (opt_prompt options) then the (opt_prompt options)
                        else ''none'')),
         ConsoleLog (''  - Source folder: '' @ SOURCE_DIR w),
         ConsoleLog (''  - Output folder: '' @ OUTPUT_DIR w)]
      else [])"

text \<open>
  The processing loop, lines 151 to 172: \<open>len\<close> is \<open>audioFiles.length\<close>, the list is
  what is left of \<open>audioFiles\<close> from index \<open>i\<close> on. A \<open>writeFile\<close> that raises leaves
  the loop with the error; otherwise the loop returns \<open>successCount\<close>.
\<close>

definition output_file :: "world \<Rightarrow> string \<Rightarrow> string" where
  "output_file w audioFile =
     path_join (OUTPUT_DIR w) (basename audioFile (extname audioFile) @ ''.txt'')"

fun process_files ::
  "world \<Rightarrow> opts \<Rightarrow> nat \<Rightarrow> string list \<Rightarrow> nat \<Rightarrow> nat \<Rightarrow> event list \<times> (err + nat)"
where
  "process_files w options len [] i successCount = ([], Inr successCount)"
| "process_files w options len (audioFile # rest) i successCount =
     (let relativePath = path_relative (SOURCE_DIR w) audioFile;
          outputFile = output_file w audioFile;
          spinner = SpinnerStart (''Processing ('' @ show_nat (i + 1) @ ''/'' @ show_nat len
                                  @ ''): '' @ relativePath)
      in case transcribeAudio w options audioFile
                (opt_model options) (opt_language options) (opt_prompt options) of
           (evs, transcription) \<Rightarrow>
             if truthy_string transcription then
               (case writeFile_error w outputFile (the transcription) of
                  Some e \<Rightarrow>
                    (spinner # evs @ [WriteFile outputFile (the transcription)], Inl e)
                | None \<Rightarrow>
                    (case process_files w options len rest (i + 1) (successCount + 1) of
                       (evs', r) \<Rightarrow>
                         (spinner # evs
                          @ [WriteFile outputFile (the transcription),
                             SpinnerSucceed (''Transcript completed: '' @ basename outputFile [])]
                          @ evs', r)))
             else
               (case process_files w options len rest (i + 1) successCount of
                  (evs', r) \<Rightarrow>
                    (spinner # evs
                     @ [SpinnerFail (''Failed to create transcript: '' @ relativePath)]
                     @ evs', r)))"

text \<open>The summary, lines 175 to 184.\<close>

definition summary :: "nat \<Rightarrow> nat \<Rightarrow> event list" where
  "summary len successCount =
     [ConsoleLog rule_line,
      ConsoleLog ''Processing completed'',
      ConsoleLog (''  - Total files: '' @ show_nat len),
      ConsoleLog (''  - Successful: '' @ show_nat successCount)]
     @ (if successCount < len
        then [ConsoleLog (''  - Failed: '' @ show_nat (len - successCount))] else [])
     @ [ConsoleLog rule_line]"

text \<open>
  The body of the \<open>try\<close> block of \<open>main\<close>: \<open>Inl\<close> is an error thrown to the \<open>catch\<close>,
  \<open>Inr\<close> the exit status of a run that was not interrupted (\<open>process.exit(0)\<close> for an
  empty batch, the normal end of the script otherwise).
\<close>

definition main_try :: "world \<Rightarrow> opts \<Rightarrow> event list \<times> (err + nat)" where
  "main_try w options =
     (case mkdir_error w (SOURCE_DIR w) of
        Some e \<Rightarrow> ([Mkdir (SOURCE_DIR w)], Inl e)
      | None \<Rightarrow>
     (case mkdir_error w (OUTPUT_DIR w) of
        Some e \<Rightarrow> ([Mkdir (SOURCE_DIR w), Mkdir (OUTPUT_DIR w)], Inl e)
      | None \<Rightarrow>
     (let started = [Mkdir (SOURCE_DIR w), Mkdir (OUTPUT_DIR w),
                     SpinnerStart ''Searching for audio files...'']
      in case findAudioFiles w (SOURCE_DIR w) (source_entries w) of
           (evs, Inl e) \<Rightarrow> (started @ evs, Inl e)
         | (evs, Inr audioFiles) \<Rightarrow>
             (let found = started @ evs
                    @ [SpinnerSucceed (''Found '' @ show_nat (length audioFiles) @ '' audio files'')]
              in if length audioFiles = 0 then
                   (found
                    @ [ConsoleLog ''No audio files to process in the source folder.'',
                       ConsoleLog (''Supported formats: '' @ join_with '', '' SUPPORTED_FORMATS)],
                    Inr 0)
                 else
                   (case process_files w options (length audioFiles) audioFiles 0 0 of
                      (evs', Inl e) \<Rightarrow>
                        (found @ [ConsoleLog ''\<newline>Starting processing...''] @ evs', Inl e)
                    | (evs', Inr successCount) \<Rightarrow>
                        (found @ [ConsoleLog ''\<newline>Starting processing...''] @ evs'
                         @ summary (length audioFiles) successCount,
                         Inr 0))))))"

definition main :: "world \<Rightarrow> opts \<Rightarrow> run" where
  "main w options =
     (if \<not> truthy_string (OPENAI_API_KEY w) then
        \<lparr>trace = banner
                  @ [ConsoleError ''Error: OPENAI_API_KEY is not set in the .env file!''],
         exit_status = 1\<rparr>
      else if \<not> truthy (MODELS_get (opt_model options)) then
        \<lparr>trace = banner
                  @ [ConsoleError (''Error: Invalid model: '' @ opt_model options),
                     ConsoleLog ''Available models:'']
                  @ map (\<lambda>(id, description). ConsoleLog (''  - '' @ id @ '': '' @ description))
                        MODELS,
         exit_status = 1\<rparr>
      else
        (case main_try w options of
           (evs, Inr status) \<Rightarrow>
             \<lparr>trace = banner @ debug_information w options @ evs, exit_status = status\<rparr>
         | (evs, Inl error) \<Rightarrow>
             \<lparr>trace = banner @ debug_information w options @ evs
                      @ [ConsoleError ''An error occurred:'', ConsoleError (message error)]
                      @ (if opt_debug options then [ConsoleErrorObject error] else []),
              exit_status = 1\<rparr>))"

text \<open>
  The script as a whole. Lines 36 to 38 construct the client while the module is loaded,
  with \<open>process.env.OPENAI_API_KEY\<close> as \<open>apiKey\<close>; \<open>main\<close> is called on the last line.
  An error thrown by the constructor is caught nowhere: the process ends with exit
  status 1 and \<open>main\<close> is not entered.
\<close>

definition script :: "world \<Rightarrow> opts \<Rightarrow> run" where
  "script w options =
     (case new_OpenAI_error w (OPENAI_API_KEY w) of
        Some error \<Rightarrow> \<lparr>trace = [UncaughtException error], exit_status = 1\<rparr>
      | None \<Rightarrow> main w options)"

text \<open>
  The files of the output directory after a run: each \<open>writeFile\<close> that does not raise
  replaces the whole content of its file.
\<close>

fun files_after :: "world \<Rightarrow> event list \<Rightarrow> (string \<rightharpoonup> string) \<Rightarrow> (string \<rightharpoonup> string)" where
  "files_after w [] fs = fs"
| "files_after w (WriteFile p content # evs) fs =
     files_after w evs (if writeFile_error w p content = None then fs(p \<mapsto> content) else fs)"
| "files_after w (_ # evs) fs = files_after w evs fs"

section \<open>Notions used to state the properties\<close>

subsection \<open>Directory trees\<close>

text \<open>
  An entry name of a real file system is a non-empty string without separator.
\<close>

definition valid_name :: "string \<Rightarrow> bool" where
  "valid_name name = (name \<noteq> [] \<and> CHR ''/'' \<notin> set name)"

text \<open>
  A listing as a file system gives it: every entry name is valid, and no two entries of
  one directory have the same name.
\<close>

fun entry_name :: "dirent \<Rightarrow> string" where
  "entry_name (File name) = name"
| "entry_name (Dir name sub) = name"

fun well_formed :: "dirent list \<Rightarrow> bool" where
  "well_formed [] = True"
| "well_formed (File name # rest) =
     (valid_name name \<and> name \<notin> entry_name ` set rest \<and> well_formed rest)"
| "well_formed (Dir name sub # rest) =
     (valid_name name \<and> name \<notin> entry_name ` set rest \<and> well_formed sub \<and> well_formed rest)"

text \<open>
  Every file of a tree (every entry that is not a directory, at any depth), with its path
  below \<open>dir\<close> and its entry name, in listing order.
\<close>

fun tree_files :: "string \<Rightarrow> dirent list \<Rightarrow> (string \<times> string) list" where
  "tree_files dir [] = []"
| "tree_files dir (File name # rest) = (path_join dir name, name) # tree_files dir rest"
| "tree_files dir (Dir name sub # rest) = tree_files (path_join dir name) sub @ tree_files dir rest"

text \<open>
  The files discovery is meant to return: those whose extension, lowercased, is one of
  the seven supported ones.
\<close>

definition has_supported_extension :: "string \<Rightarrow> bool" where
  "has_supported_extension name =
     (toLowerCase (extname name) \<in> {''.mp3'', ''.mp4'', ''.mpeg'', ''.mpga'', ''.m4a'', ''.wav'', ''.webm''})"

definition audio_paths :: "string \<Rightarrow> dirent list \<Rightarrow> string list" where
  "audio_paths dir t = map fst (filter (\<lambda>(p, n). has_supported_extension n) (tree_files dir t))"

text \<open>
  The part of a path before the separator that \<open>path.join\<close> puts in front of an entry
  name.
\<close>

definition dir_prefix :: "string \<Rightarrow> string" where
  "dir_prefix dir = (if dir = ''/'' then [] else dir)"

text \<open>
  An entry name without its extension.
\<close>

definition strip_extension :: "string \<Rightarrow> string" where
  "strip_extension name = take (length name - length (extname name)) name"

subsection \<open>Calls and their outcome\<close>

text \<open>
  The argument object \<open>transcribeAudio\<close> builds when \<open>main\<close> calls it for a file (lines
  158 to 163), that call itself, and its outcome as the \<open>if (transcription)\<close> of line 165
  sees it: a file is transcribed successfully when the call returns a non-empty text.
\<close>

definition request_for :: "opts \<Rightarrow> string \<Rightarrow> request" where
  "request_for options audioFile =
     \<lparr>req_file = audioFile,
      req_model = opt_model options,
      req_language = (if opt_language options \<noteq> ''auto'' then Some (opt_language options) else None),
      req_prompt = opt_prompt options\<rparr>"

definition transcribe :: "world \<Rightarrow> opts \<Rightarrow> string \<Rightarrow> event list \<times> string option" where
  "transcribe w options audioFile =
     transcribeAudio w options audioFile (opt_model options) (opt_language options) (opt_prompt options)"

definition succeeds :: "world \<Rightarrow> opts \<Rightarrow> string \<Rightarrow> bool" where
  "succeeds w options audioFile = truthy_string (snd (transcribe w options audioFile))"

subsection \<open>Reading a trace\<close>

text \<open>
  The \<open>writeFile\<close> calls of a trace (path and content), the requests sent to the
  service, and the directories listed, each in order.
\<close>

fun written :: "event list \<Rightarrow> (string \<times> string) list" where
  "written [] = []"
| "written (WriteFile p c # evs) = (p, c) # written evs"
| "written (_ # evs) = written evs"

fun created :: "event list \<Rightarrow> request list" where
  "created [] = []"
| "created (Create r # evs) = r # created evs"
| "created (_ # evs) = created evs"

fun listed :: "event list \<Rightarrow> string list" where
  "listed [] = []"
| "listed (Readdir d # evs) = d # listed evs"
| "listed (_ # evs) = listed evs"

subsection \<open>Example runs\<close>

text \<open>
  The script installed in \<open>/app\<close>. The source directory holds two audio files, a text
  file and a subdirectory with an audio file in upper case and a dot file; the service
  transcribes \<open>a.wav\<close>, rejects \<open>b.mp3\<close> and returns an empty text for everything
  else. No file-system call raises, and the client is constructed when a key is given.
\<close>

definition demo_world :: world where
  "demo_world =
     \<lparr>OPENAI_API_KEY = Some ''sk-demo'',
      new_OpenAI_error =
        (\<lambda>apiKey. case apiKey of
                    None \<Rightarrow> Some (Error ''The OPENAI_API_KEY environment variable is missing or empty'')
                  | Some key \<Rightarrow> None),
      dirname = ''/app'',
      source_entries =
        [File ''a.wav'', File ''b.mp3'', File ''notes.txt'',
         Dir ''sub'' [File ''c.MP3'', File ''.mp3'']],
      mkdir_error = (\<lambda>p. None),
      readdir_error = (\<lambda>p. None),
      writeFile_error = (\<lambda>p c. None),
      transcriptions_create =
        (\<lambda>r. if req_file r = ''/app/source/a.wav'' then Inr ''hello''
             else if req_file r = ''/app/source/b.mp3'' then Inl (Error ''Connection error.'')
             else Inr [])\<rparr>"

definition demo_options :: opts where
  "demo_options =
     \<lparr>opt_model = ''whisper-1'', opt_language = ''auto'', opt_prompt = None, opt_debug = False\<rparr>"

text \<open>
  Variants: one audio file only; no audio file; two files of the same name in two
  subdirectories, both transcribed; a model name that no entry of \<open>MODELS\<close> has; and
  a service that looks at the language parameter: it detects the language when there is
  none, rejects the word \<open>auto\<close> as a language, and otherwise answers with the language
  it was given.
\<close>

definition solo_world :: world where
  "solo_world = demo_world\<lparr>source_entries := [File ''a.wav'']\<rparr>"

definition silent_world :: world where
  "silent_world = demo_world\<lparr>source_entries := [File ''notes.txt'', Dir ''empty'' []]\<rparr>"


definition constructor_options :: opts where
  "constructor_options = demo_options\<lparr>opt_model := ''constructor''\<rparr>"

definition picky_world :: world where
  "picky_world =
     demo_world
       \<lparr>transcriptions_create :=
          (\<lambda>r. case req_language r of
                 None \<Rightarrow> Inr ''detected''
               | Some l \<Rightarrow> if l = ''auto'' then Inl (Error ''Invalid language'') else Inr l)\<rparr>"

section \<open>Lemmas\<close>

subsection \<open>Paths\<close>

lemma last_component_append_slash:
  assumes "valid_name name"
  shows "last_component (d @ CHR ''/'' # name) = name"
proof -
  from assms obtain c cs where rn: "rev name = c # cs" and "c \<noteq> CHR ''/''"
    by (cases "rev name") (auto simp: valid_name_def dest: arg_cong[where f=set])
  have all: "\<forall>x\<in>set (rev name). \<not> is_slash x"
    using assms by (auto simp: valid_name_def is_slash_def)
  have "dropWhile is_slash (rev (d @ CHR ''/'' # name)) = rev name @ CHR ''/'' # rev d"
    using rn \<open>c \<noteq> CHR ''/''\<close> by (simp add: is_slash_def)
  moreover have "takeWhile (\<lambda>c. \<not> is_slash c) (rev name @ CHR ''/'' # rev d) = rev name"
    using all takeWhile_append2[of "rev name" "\<lambda>c. \<not> is_slash c" "CHR ''/'' # rev d"]
    by (simp add: is_slash_def)
  ultimately show ?thesis by (simp add: last_component_def)
qed

lemma last_component_path_join:
  assumes "valid_name name"
  shows "last_component (path_join dir name) = name"
proof (cases "dir = ''/''")
  case True
  then have "path_join dir name = [] @ CHR ''/'' # name" by (simp add: path_join_def)
  then show ?thesis using last_component_append_slash[OF assms] by metis
next
  case False
  then have "path_join dir name = dir @ CHR ''/'' # name" by (simp add: path_join_def)
  then show ?thesis using last_component_append_slash[OF assms] by metis
qed

lemma last_component_valid: "valid_name name \<Longrightarrow> last_component name = name"
proof -
  assume v: "valid_name name"
  then obtain c cs where rn: "rev name = c # cs" and "c \<noteq> CHR ''/''"
    by (cases "rev name") (auto simp: valid_name_def dest: arg_cong[where f=set])
  then have "dropWhile is_slash (rev name) = rev name" by (simp add: is_slash_def)
  moreover have "takeWhile (\<lambda>c. \<not> is_slash c) (rev name) = rev name"
    using v by (auto simp: valid_name_def is_slash_def takeWhile_eq_all_conv)
  ultimately show ?thesis unfolding last_component_def by (simp only: rev_rev_ident)
qed

lemma extname_path_join:
  assumes "valid_name name"
  shows "extname (path_join dir name) = component_ext name"
  by (simp add: extname_def last_component_path_join[OF assms])

lemma extname_valid: "valid_name name \<Longrightarrow> extname name = component_ext name"
  by (simp add: extname_def last_component_valid)

lemma component_ext_split:
  assumes "component_ext c \<noteq> []"
  shows "\<exists>stem. stem \<noteq> [] \<and> c = stem @ component_ext c"
proof -
  let ?P = "\<lambda>x. \<not> is_dot x"
  from assms have dot: "CHR ''.'' \<in> set c"
    and stem: "rev (drop 1 (dropWhile ?P (rev c))) \<noteq> []"
    and ext: "component_ext c = CHR ''.'' # rev (takeWhile ?P (rev c))"
    by (auto simp: component_ext_def Let_def split: if_splits)
  from dot have "dropWhile ?P (rev c) \<noteq> []"
    by (auto simp: dropWhile_eq_Nil_conv is_dot_def)
  then obtain y ys where dw: "dropWhile ?P (rev c) = y # ys"
    by (cases "dropWhile ?P (rev c)") auto
  then have "\<not> ?P y" using hd_dropWhile[of ?P "rev c"] by auto
  then have y: "y = CHR ''.''" by (simp add: is_dot_def)
  have "rev c = takeWhile ?P (rev c) @ dropWhile ?P (rev c)" by simp
  then have "rev c = takeWhile ?P (rev c) @ CHR ''.'' # ys" using dw y by simp
  then have "c = rev ys @ CHR ''.'' # rev (takeWhile ?P (rev c))"
    by (metis rev_append rev.simps(2) rev_rev_ident append_assoc append_Cons append_Nil)
  moreover have "rev ys \<noteq> []" using stem dw by simp
  ultimately show ?thesis using ext by metis
qed

lemma slash_in_path_join: "CHR ''/'' \<in> set (path_join dir name)"
  by (simp add: path_join_def)

lemma basename_path_join:
  assumes "valid_name name"
  shows "basename (path_join dir name) (extname (path_join dir name)) = strip_extension name"
proof (cases "component_ext name = []")
  case True
  then show ?thesis
    using assms
    by (simp add: basename_def extname_path_join extname_valid strip_extension_def
        last_component_path_join)
next
  case False
  then obtain stem where stem: "stem \<noteq> []" and name: "name = stem @ component_ext name"
    using component_ext_split by blast
  let ?e = "component_ext name"
  let ?p = "path_join dir name"
  have noslash: "CHR ''/'' \<notin> set ?e"
    using assms name by (metis Un_iff set_append valid_name_def)
  then have ne: "?e \<noteq> ?p" using slash_in_path_join[of dir name] by metis
  have len: "length ?e \<le> length name" using name by (metis length_append le_add2)
  have "length name \<le> length ?p" by (simp add: path_join_def)
  then have lenp: "length ?e \<le> length ?p" using len by simp
  have drop: "drop (length name - length ?e) name = ?e"
    using name by (metis append_eq_conv_conj add_diff_cancel_right' length_append)
  have neq: "name \<noteq> ?e" using name stem by (metis append_self_conv2)
  show ?thesis
    using False ne lenp len drop neq assms
    by (simp add: basename_def extname_path_join extname_valid strip_extension_def
        last_component_path_join ends_with_def Let_def)
qed

lemma output_file_path_join:
  assumes "valid_name name"
  shows "output_file w (path_join dir name) = path_join (OUTPUT_DIR w) (strip_extension name @ ''.txt'')"
  by (simp add: output_file_def basename_path_join[OF assms])

lemma path_join_prefix: "path_join dir name = dir_prefix dir @ CHR ''/'' # name"
  by (simp add: path_join_def dir_prefix_def)

lemma dir_prefix_path_join:
  assumes "name \<noteq> []"
  shows "dir_prefix (path_join dir name) = dir_prefix dir @ CHR ''/'' # name"
proof -
  have "length (path_join dir name) \<ge> 2"
    using assms by (cases name) (auto simp: path_join_def)
  then have "path_join dir name \<noteq> ''/''" by auto
  then show ?thesis by (simp add: dir_prefix_def path_join_prefix)
qed

lemma slash_free_prefix:
  assumes "a @ r = b @ s" and "CHR ''/'' \<notin> set a" and "CHR ''/'' \<notin> set b"
    and "r = [] \<or> (\<exists>r'. r = CHR ''/'' # r')" and "s = [] \<or> (\<exists>s'. s = CHR ''/'' # s')"
  shows "a = b"
proof -
  have t: "takeWhile (\<lambda>c. c \<noteq> CHR ''/'') (x @ y) = x"
    if "CHR ''/'' \<notin> set x" "y = [] \<or> (\<exists>y'. y = CHR ''/'' # y')" for x y
  proof -
    have "takeWhile (\<lambda>c. c \<noteq> CHR ''/'') (x @ y) = x @ takeWhile (\<lambda>c. c \<noteq> CHR ''/'') y"
      using that(1) by (intro takeWhile_append2) auto
    moreover have "takeWhile (\<lambda>c. c \<noteq> CHR ''/'') y = []" using that(2) by auto
    ultimately show ?thesis by simp
  qed
  from t[OF assms(2,4)] t[OF assms(3,5)] assms(1) show ?thesis by simp
qed

subsection \<open>Traces\<close>

lemma written_append: "written (xs @ ys) = written xs @ written ys"
  by (induction xs rule: written.induct) simp_all

lemma created_append: "created (xs @ ys) = created xs @ created ys"
  by (induction xs rule: created.induct) simp_all

lemma listed_append: "listed (xs @ ys) = listed xs @ listed ys"
  by (induction xs rule: listed.induct) simp_all

lemma fixed_events:
  "written banner = []" "created banner = []" "listed banner = []"
  "written (debug_information w options) = []" "created (debug_information w options) = []"
  "listed (debug_information w options) = []"
  "written (summary len sc) = []" "created (summary len sc) = []"
  by (simp_all add: banner_def debug_information_def summary_def)

lemma files_after_append: "files_after w (xs @ ys) fs = files_after w ys (files_after w xs fs)"
  by (induction w xs fs rule: files_after.induct) simp_all


subsection \<open>Discovery\<close>

lemma supported_iff: "toLowerCase (extname name) \<in> set SUPPORTED_FORMATS \<longleftrightarrow> has_supported_extension name"
  by (simp add: SUPPORTED_FORMATS_def has_supported_extension_def)

lemma findAudioFiles_ok:
  assumes "\<And>d. readdir_error w d = None"
  shows "snd (findAudioFiles w dir t) = Inr (audio_paths dir t)"
    and "snd (for_files w dir t acc) = Inr (acc @ audio_paths dir t)"
  using assms
  apply (induction w dir t and w dir t acc rule: findAudioFiles_for_files.induct)
  apply (auto simp: audio_paths_def supported_iff Let_def case_prod_beta split: sum.splits)
  done

lemma findAudioFiles_events:
  shows "written (fst (findAudioFiles w dir t)) = [] \<and> created (fst (findAudioFiles w dir t)) = []"
    and "written (fst (for_files w dir t acc)) = [] \<and> created (fst (for_files w dir t acc)) = []"
  by (induction w dir t and w dir t acc rule: findAudioFiles_for_files.induct)
     (auto simp: Let_def case_prod_beta written_append created_append split: sum.splits option.splits)

lemma tree_files_paths:
  "(p, name) \<in> set (tree_files dir t) \<Longrightarrow> \<exists>d. p = path_join d name"
  by (induction dir t rule: tree_files.induct) auto

lemma well_formed_names: "well_formed t \<Longrightarrow> e \<in> set t \<Longrightarrow> valid_name (entry_name e)"
  by (induction t rule: well_formed.induct) auto

lemma tree_files_shape:
  assumes "well_formed t" and "(p, n) \<in> set (tree_files dir t)"
  shows "\<exists>e\<in>set t. \<exists>r. p = dir_prefix dir @ CHR ''/'' # entry_name e @ r
                      \<and> (r = [] \<or> (\<exists>r'. r = CHR ''/'' # r'))"
  using assms
proof (induction dir t rule: tree_files.induct)
  case (1 dir)
  then show ?case by simp
next
  case (2 dir name rest)
  then show ?case by (auto simp: path_join_prefix)
next
  case (3 dir name sub rest)
  from "3.prems" have wf: "valid_name name" "well_formed sub" "well_formed rest" by simp_all
  from "3.prems"(2) consider
    (nested) "(p, n) \<in> set (tree_files (path_join dir name) sub)"
    | (later) "(p, n) \<in> set (tree_files dir rest)" by auto
  then show ?case
  proof cases
    case nested
    from "3.IH"(1)[OF wf(2) nested] obtain e r
      where "p = dir_prefix (path_join dir name) @ CHR ''/'' # entry_name e @ r" by blast
    then have "p = dir_prefix dir @ CHR ''/'' # entry_name (Dir name sub)
                     @ (CHR ''/'' # entry_name e @ r)"
      using wf(1) by (simp add: dir_prefix_path_join valid_name_def)
    then show ?thesis by (metis list.set_intros(1))
  next
    case later
    from "3.IH"(2)[OF wf(3) later] show ?thesis by auto
  qed
qed

lemma tree_files_distinct:
  assumes "well_formed t"
  shows "distinct (map fst (tree_files dir t))"
  using assms
proof (induction dir t rule: tree_files.induct)
  case (1 dir)
  then show ?case by simp
next
  case (2 dir name rest)
  from "2.prems" have wf: "valid_name name" "name \<notin> entry_name ` set rest" "well_formed rest"
    by simp_all
  have "path_join dir name \<notin> fst ` set (tree_files dir rest)"
  proof
    assume "path_join dir name \<in> fst ` set (tree_files dir rest)"
    then obtain n where "(path_join dir name, n) \<in> set (tree_files dir rest)" by auto
    from tree_files_shape[OF wf(3) this] obtain e r
      where e: "e \<in> set rest"
        and eq: "path_join dir name = dir_prefix dir @ CHR ''/'' # entry_name e @ r"
        and r: "r = [] \<or> (\<exists>r'. r = CHR ''/'' # r')" by blast
    from eq have "name @ [] = entry_name e @ r" by (simp add: path_join_prefix)
    moreover have "CHR ''/'' \<notin> set (entry_name e)"
      using well_formed_names[OF wf(3) e] by (simp add: valid_name_def)
    moreover have "CHR ''/'' \<notin> set name" using wf(1) by (simp add: valid_name_def)
    ultimately have "name = entry_name e" using r slash_free_prefix by blast
    with e wf(2) show False by auto
  qed
  with "2.IH"[OF wf(3)] show ?case by simp
next
  case (3 dir name sub rest)
  from "3.prems" have wf: "valid_name name" "name \<notin> entry_name ` set rest"
    "well_formed sub" "well_formed rest" by simp_all
  have "fst ` set (tree_files (path_join dir name) sub) \<inter> fst ` set (tree_files dir rest) = {}"
  proof (rule ccontr)
    assume "\<not> ?thesis"
    then obtain p n n' where a: "(p, n) \<in> set (tree_files (path_join dir name) sub)"
      and b: "(p, n') \<in> set (tree_files dir rest)" by auto
    from tree_files_shape[OF wf(3) a] obtain e1 r1
      where "p = dir_prefix (path_join dir name) @ CHR ''/'' # entry_name e1 @ r1" by blast
    then have p1: "p = dir_prefix dir @ CHR ''/'' # name @ (CHR ''/'' # entry_name e1 @ r1)"
      using wf(1) by (simp add: dir_prefix_path_join valid_name_def)
    from tree_files_shape[OF wf(4) b] obtain e r
      where e: "e \<in> set rest"
        and p2: "p = dir_prefix dir @ CHR ''/'' # entry_name e @ r"
        and r: "r = [] \<or> (\<exists>r'. r = CHR ''/'' # r')" by blast
    from p1 p2 have "name @ (CHR ''/'' # entry_name e1 @ r1) = entry_name e @ r" by simp
    moreover have "CHR ''/'' \<notin> set (entry_name e)"
      using well_formed_names[OF wf(4) e] by (simp add: valid_name_def)
    moreover have "CHR ''/'' \<notin> set name" using wf(1) by (simp add: valid_name_def)
    ultimately have "name = entry_name e" using r slash_free_prefix by blast
    with e wf(2) show False by auto
  qed
  with "3.IH"(1)[OF wf(3)] "3.IH"(2)[OF wf(4)] show ?case by simp
qed

subsection \<open>One call of the service\<close>

lemma transcribe_cases:
  "transcribe w options f =
     (case transcriptions_create w (request_for options f) of
        Inr text \<Rightarrow> ([Create (request_for options f)], Some text)
      | Inl error \<Rightarrow>
          ([Create (request_for options f),
            ConsoleError (''Error transcribing '' @ basename f [] @ '':''),
            ConsoleError (message error)]
           @ (if opt_debug options then [ConsoleErrorObject error] else []), None))"
  by (simp add: transcribe_def transcribeAudio_def request_for_def Let_def split: sum.splits)


lemma transcribe_created: "created (fst (transcribe w options f)) = [request_for options f]"
  by (simp add: transcribe_cases split: sum.splits)

lemma transcribe_listed: "listed (fst (transcribe w options f)) = []"
  by (simp add: transcribe_cases split: sum.splits)

lemma succeeds_iff:
  "succeeds w options f \<longleftrightarrow>
     (\<exists>text. transcriptions_create w (request_for options f) = Inr text \<and> text \<noteq> [])"
  by (auto simp: succeeds_def transcribe_cases split: sum.splits)

subsection \<open>The processing loop\<close>

lemma process_files_Cons:
  "process_files w options len (f # rest) i sc =
     (let spinner = SpinnerStart (''Processing ('' @ show_nat (i + 1) @ ''/'' @ show_nat len
                                  @ ''): '' @ path_relative (SOURCE_DIR w) f);
          evs = fst (transcribe w options f);
          transcription = snd (transcribe w options f)
      in if succeeds w options f then
           (case writeFile_error w (output_file w f) (the transcription) of
              Some e \<Rightarrow> (spinner # evs @ [WriteFile (output_file w f) (the transcription)], Inl e)
            | None \<Rightarrow>
                (spinner # evs
                 @ [WriteFile (output_file w f) (the transcription),
                    SpinnerSucceed (''Transcript completed: '' @ basename (output_file w f) [])]
                 @ fst (process_files w options len rest (i + 1) (sc + 1)),
                 snd (process_files w options len rest (i + 1) (sc + 1))))
         else
           (spinner # evs
            @ [SpinnerFail (''Failed to create transcript: '' @ path_relative (SOURCE_DIR w) f)]
            @ fst (process_files w options len rest (i + 1) sc),
            snd (process_files w options len rest (i + 1) sc)))"
  by (simp add: succeeds_def transcribe_def Let_def case_prod_beta split: option.splits)

lemma process_files_Cons_success:
  assumes "transcriptions_create w (request_for options f) = Inr text"
    and "text \<noteq> []"
    and "writeFile_error w (output_file w f) text = None"
  shows "fst (process_files w options len (f # rest) i sc) =
           [SpinnerStart (''Processing ('' @ show_nat (i + 1) @ ''/'' @ show_nat len @ ''): ''
                          @ path_relative (SOURCE_DIR w) f),
            Create (request_for options f),
            WriteFile (output_file w f) text,
            SpinnerSucceed (''Transcript completed: '' @ basename (output_file w f) [])]
           @ fst (process_files w options len rest (i + 1) (sc + 1))"
    and "snd (process_files w options len (f # rest) i sc) =
           snd (process_files w options len rest (i + 1) (sc + 1))"
proof -
  have s: "succeeds w options f" using assms(1,2) by (simp add: succeeds_iff)
  have t: "transcribe w options f = ([Create (request_for options f)], Some text)"
    using assms(1) by (simp add: transcribe_cases)
  show "fst (process_files w options len (f # rest) i sc) =
           [SpinnerStart (''Processing ('' @ show_nat (i + 1) @ ''/'' @ show_nat len @ ''): ''
                          @ path_relative (SOURCE_DIR w) f),
            Create (request_for options f),
            WriteFile (output_file w f) text,
            SpinnerSucceed (''Transcript completed: '' @ basename (output_file w f) [])]
           @ fst (process_files w options len rest (i + 1) (sc + 1))"
    using s t assms(3) by (simp add: process_files_Cons Let_def del: process_files.simps)
  show "snd (process_files w options len (f # rest) i sc) =
           snd (process_files w options len rest (i + 1) (sc + 1))"
    using s t assms(3) by (simp add: process_files_Cons Let_def del: process_files.simps)
qed

lemma process_files_Cons_failure:
  assumes "transcriptions_create w (request_for options f) = Inl e"
  shows "fst (process_files w options len (f # rest) i sc) =
           [SpinnerStart (''Processing ('' @ show_nat (i + 1) @ ''/'' @ show_nat len @ ''): ''
                          @ path_relative (SOURCE_DIR w) f),
            Create (request_for options f),
            ConsoleError (''Error transcribing '' @ basename f [] @ '':''),
            ConsoleError (message e)]
           @ (if opt_debug options then [ConsoleErrorObject e] else [])
           @ [SpinnerFail (''Failed to create transcript: '' @ path_relative (SOURCE_DIR w) f)]
           @ fst (process_files w options len rest (i + 1) sc)
       \<and> snd (process_files w options len (f # rest) i sc) =
           snd (process_files w options len rest (i + 1) sc)"
proof -
  have "\<not> succeeds w options f" using assms by (simp add: succeeds_iff)
  moreover have "fst (transcribe w options f) =
        [Create (request_for options f),
         ConsoleError (''Error transcribing '' @ basename f [] @ '':''),
         ConsoleError (message e)]
        @ (if opt_debug options then [ConsoleErrorObject e] else [])"
    using assms by (simp add: transcribe_cases)
  ultimately show ?thesis
    by (simp add: process_files_Cons Let_def del: process_files.simps)
qed

lemma process_files_count:
  assumes "\<And>p c. writeFile_error w p c = None"
  shows "snd (process_files w options len files i sc) = Inr (sc + length (filter (succeeds w options) files))"
  using assms
proof (induction files arbitrary: i sc)
  case Nil
  then show ?case by simp
next
  case (Cons f rest)
  then show ?case by (simp add: process_files_Cons Let_def del: process_files.simps)
qed

lemma process_files_created:
  assumes "\<And>p c. writeFile_error w p c = None"
  shows "created (fst (process_files w options len files i sc)) = map (request_for options) files"
  using assms
proof (induction files arbitrary: i sc)
  case Nil
  then show ?case by simp
next
  case (Cons f rest)
  then show ?case
    by (simp add: process_files_Cons Let_def created_append transcribe_created del: process_files.simps)
qed


lemma process_files_listed: "listed (fst (process_files w options len files i sc)) = []"
proof (induction files arbitrary: i sc)
  case Nil
  then show ?case by simp
next
  case (Cons f rest)
  then show ?case
    by (simp add: process_files_Cons Let_def listed_append transcribe_listed
        split: option.splits del: process_files.simps)
qed

lemma process_files_failure_logged:
  assumes "\<And>p c. writeFile_error w p c = None"
    and "f \<in> set files"
    and "transcriptions_create w (request_for options f) = Inl e"
  shows "ConsoleError (''Error transcribing '' @ basename f [] @ '':'') \<in> set (fst (process_files w options len files i sc))
       \<and> ConsoleError (message e) \<in> set (fst (process_files w options len files i sc))
       \<and> SpinnerFail (''Failed to create transcript: '' @ path_relative (SOURCE_DIR w) f)
            \<in> set (fst (process_files w options len files i sc))"
  using assms
proof (induction files arbitrary: i sc)
  case Nil
  then show ?case by simp
next
  case (Cons g rest)
  show ?case
  proof (cases "g = f")
    case True
    have "\<not> succeeds w options f" using Cons.prems(3) by (simp add: succeeds_iff)
    moreover have "fst (transcribe w options f) =
        [Create (request_for options f),
            ConsoleError (''Error transcribing '' @ basename f [] @ '':''),
            ConsoleError (message e)]
           @ (if opt_debug options then [ConsoleErrorObject e] else [])"
      using Cons.prems(3) by (simp add: transcribe_cases)
    ultimately show ?thesis using True
      by (simp add: process_files_Cons Let_def del: process_files.simps)
  next
    case False
    then have "f \<in> set rest" using Cons.prems(2) by simp
    from Cons.IH[OF Cons.prems(1) this Cons.prems(3)]
    show ?thesis
      by (simp add: process_files_Cons Let_def Cons.prems(1) del: process_files.simps)
  qed
qed

lemma count_failed:
  "length (filter (\<lambda>f. \<not> P f) xs) = length xs - length (filter P xs)"
  using sum_length_filter_compl[of P xs] by simp

subsection \<open>A whole run\<close>

lemma main_batch:
  assumes "truthy_string (OPENAI_API_KEY w)"
    and "truthy (MODELS_get (opt_model options))"
    and "mkdir_error w (SOURCE_DIR w) = None"
    and "mkdir_error w (OUTPUT_DIR w) = None"
    and "findAudioFiles w (SOURCE_DIR w) (source_entries w) = (devs, Inr files)"
    and "files \<noteq> []"
    and "process_files w options (length files) files 0 0 = (pevs, Inr sc)"
  shows "main w options =
     \<lparr>trace = banner @ debug_information w options
              @ [Mkdir (SOURCE_DIR w), Mkdir (OUTPUT_DIR w), SpinnerStart ''Searching for audio files...'']
              @ devs
              @ [SpinnerSucceed (''Found '' @ show_nat (length files) @ '' audio files''),
                 ConsoleLog ''\<newline>Starting processing...'']
              @ pevs @ summary (length files) sc,
      exit_status = 0\<rparr>"
  using assms by (simp add: main_def main_try_def Let_def)

lemma main_empty:
  assumes "truthy_string (OPENAI_API_KEY w)"
    and "truthy (MODELS_get (opt_model options))"
    and "mkdir_error w (SOURCE_DIR w) = None"
    and "mkdir_error w (OUTPUT_DIR w) = None"
    and "findAudioFiles w (SOURCE_DIR w) (source_entries w) = (devs, Inr [])"
  shows "main w options =
     \<lparr>trace = banner @ debug_information w options
              @ [Mkdir (SOURCE_DIR w), Mkdir (OUTPUT_DIR w), SpinnerStart ''Searching for audio files...'']
              @ devs
              @ [SpinnerSucceed ''Found 0 audio files'',
                 ConsoleLog ''No audio files to process in the source folder.'',
                 ConsoleLog ''Supported formats: .mp3, .mp4, .mpeg, .mpga, .m4a, .wav, .webm''],
      exit_status = 0\<rparr>"
  using assms by (simp add: main_def main_try_def Let_def show_nat.simps digit_char_def SUPPORTED_FORMATS_def)

lemma main_run:
  assumes "truthy_string (OPENAI_API_KEY w)"
    and "truthy (MODELS_get (opt_model options))"
    and "mkdir_error w (SOURCE_DIR w) = None"
    and "mkdir_error w (OUTPUT_DIR w) = None"
    and "snd (findAudioFiles w (SOURCE_DIR w) (source_entries w)) = Inr files"
    and "\<And>p c. writeFile_error w p c = None"
  shows "main w options =
     \<lparr>trace = banner @ debug_information w options
              @ [Mkdir (SOURCE_DIR w), Mkdir (OUTPUT_DIR w), SpinnerStart ''Searching for audio files...'']
              @ fst (findAudioFiles w (SOURCE_DIR w) (source_entries w))
              @ [SpinnerSucceed (''Found '' @ show_nat (length files) @ '' audio files'')]
              @ (if files = [] then
                   [ConsoleLog ''No audio files to process in the source folder.'',
                    ConsoleLog ''Supported formats: .mp3, .mp4, .mpeg, .mpga, .m4a, .wav, .webm'']
                 else
                   [ConsoleLog ''\<newline>Starting processing...'']
                   @ fst (process_files w options (length files) files 0 0)
                   @ summary (length files) (length (filter (succeeds w options) files))),
      exit_status = 0\<rparr>"
proof -
  obtain devs where d: "findAudioFiles w (SOURCE_DIR w) (source_entries w) = (devs, Inr files)"
    using assms(5) by (cases "findAudioFiles w (SOURCE_DIR w) (source_entries w)") auto
  show ?thesis
  proof (cases "files = []")
    case True
    then show ?thesis
      using main_empty[OF assms(1-4) d[unfolded True]] d
      by (simp add: show_nat.simps digit_char_def)
  next
    case False
    have "process_files w options (length files) files 0 0 =
          (fst (process_files w options (length files) files 0 0),
           Inr (length (filter (succeeds w options) files)))"
      using process_files_count[OF assms(6), of options "length files" files 0 0]
      by (metis add_0 prod.collapse)
    from main_batch[OF assms(1-4) d False this] show ?thesis
      using d False by simp
  qed
qed


lemma main_created:
  assumes "truthy_string (OPENAI_API_KEY w)"
    and "truthy (MODELS_get (opt_model options))"
    and "mkdir_error w (SOURCE_DIR w) = None"
    and "mkdir_error w (OUTPUT_DIR w) = None"
    and "snd (findAudioFiles w (SOURCE_DIR w) (source_entries w)) = Inr files"
    and "\<And>p c. writeFile_error w p c = None"
  shows "created (trace (main w options)) = map (request_for options) files"
  by (simp add: main_run[OF assms] created_append fixed_events findAudioFiles_events
      process_files_created[OF assms(6)] del: findAudioFiles.simps)

lemma script_is_main:
  "new_OpenAI_error w (OPENAI_API_KEY w) = None \<Longrightarrow> script w options = main w options"
  by (simp add: script_def)

lemma unknown_model_stops_run:
  assumes "truthy_string (OPENAI_API_KEY w)"
    and "MODELS_get (opt_model options) = JsUndefined"
  shows "main w options =
           \<lparr>trace = banner
                    @ [ConsoleError (''Error: Invalid model: '' @ opt_model options),
                       ConsoleLog ''Available models:'',
                       ConsoleLog ''  - whisper-1: OpenAI Whisper (most accurate)'',
                       ConsoleLog ''  - whisper-1-quantized: OpenAI Whisper (optimized)''],
            exit_status = 1\<rparr>"
  using assms by (simp add: main_def MODELS_def)

subsection \<open>The example runs, evaluated\<close>

lemmas path_simps = path_join_def last_component_def extname_def component_ext_def basename_def
  ends_with_def is_slash_def is_dot_def path_relative_def toLowerCase_def lower_char_def

lemma demo_world_fields:
  "OPENAI_API_KEY demo_world = Some ''sk-demo''"
  "new_OpenAI_error demo_world None =
     Some (Error ''The OPENAI_API_KEY environment variable is missing or empty'')"
  "new_OpenAI_error demo_world (Some key) = None"
  "dirname demo_world = ''/app''"
  "source_entries demo_world =
     [File ''a.wav'', File ''b.mp3'', File ''notes.txt'', Dir ''sub'' [File ''c.MP3'', File ''.mp3'']]"
  "mkdir_error demo_world p = None"
  "readdir_error demo_world p = None"
  "writeFile_error demo_world p c = None"
  "transcriptions_create demo_world r =
     (if req_file r = ''/app/source/a.wav'' then Inr ''hello''
      else if req_file r = ''/app/source/b.mp3'' then Inl (Error ''Connection error.'')
      else Inr [])"
  by (simp_all add: demo_world_def)

lemma demo_options_fields:
  "opt_model demo_options = ''whisper-1''"
  "opt_language demo_options = ''auto''"
  "opt_prompt demo_options = None"
  "opt_debug demo_options = False"
  by (simp_all add: demo_options_def)

lemma demo_dirs:
  "SOURCE_DIR demo_world = ''/app/source''"
  "OUTPUT_DIR demo_world = ''/app/transcriptions''"
  by (simp_all add: SOURCE_DIR_def OUTPUT_DIR_def demo_world_fields path_join_def)

lemma demo_discovery:
  "findAudioFiles demo_world ''/app/source''
     [File ''a.wav'', File ''b.mp3'', File ''notes.txt'', Dir ''sub'' [File ''c.MP3'', File ''.mp3'']] =
     ([Readdir ''/app/source'', Readdir ''/app/source/sub''],
      Inr [''/app/source/a.wav'', ''/app/source/b.mp3'', ''/app/source/sub/c.MP3''])"
  by (simp add: demo_world_fields path_simps SUPPORTED_FORMATS_def Let_def)

lemma demo_loop:
  "process_files demo_world demo_options 3
     [''/app/source/a.wav'', ''/app/source/b.mp3'', ''/app/source/sub/c.MP3''] 0 0 =
   ([SpinnerStart ''Processing (1/3): a.wav'',
     Create \<lparr>req_file = ''/app/source/a.wav'', req_model = ''whisper-1'',
             req_language = None, req_prompt = None\<rparr>,
     WriteFile ''/app/transcriptions/a.txt'' ''hello'',
     SpinnerSucceed ''Transcript completed: a.txt'',
     SpinnerStart ''Processing (2/3): b.mp3'',
     Create \<lparr>req_file = ''/app/source/b.mp3'', req_model = ''whisper-1'',
             req_language = None, req_prompt = None\<rparr>,
     ConsoleError ''Error transcribing b.mp3:'',
     ConsoleError ''Connection error.'',
     SpinnerFail ''Failed to create transcript: b.mp3'',
     SpinnerStart ''Processing (3/3): sub/c.MP3'',
     Create \<lparr>req_file = ''/app/source/sub/c.MP3'', req_model = ''whisper-1'',
             req_language = None, req_prompt = None\<rparr>,
     SpinnerFail ''Failed to create transcript: sub/c.MP3''],
    Inr 1)"
  by (simp add: demo_dirs demo_world_fields demo_options_fields output_file_def
      transcribeAudio_def Let_def show_nat.simps digit_char_def path_simps)

lemma demo_main:
  "main demo_world demo_options =
     \<lparr>trace =
        [ConsoleLog ''=================================================='',
         ConsoleLog ''Whisper Audio Transcription App'',
         ConsoleLog ''=================================================='',
         Mkdir ''/app/source'', Mkdir ''/app/transcriptions'',
         SpinnerStart ''Searching for audio files...'',
         Readdir ''/app/source'', Readdir ''/app/source/sub'',
         SpinnerSucceed ''Found 3 audio files'',
         ConsoleLog ''\<newline>Starting processing...'',
         SpinnerStart ''Processing (1/3): a.wav'',
         Create \<lparr>req_file = ''/app/source/a.wav'', req_model = ''whisper-1'',
                 req_language = None, req_prompt = None\<rparr>,
         WriteFile ''/app/transcriptions/a.txt'' ''hello'',
         SpinnerSucceed ''Transcript completed: a.txt'',
         SpinnerStart ''Processing (2/3): b.mp3'',
         Create \<lparr>req_file = ''/app/source/b.mp3'', req_model = ''whisper-1'',
                 req_language = None, req_prompt = None\<rparr>,
         ConsoleError ''Error transcribing b.mp3:'',
         ConsoleError ''Connection error.'',
         SpinnerFail ''Failed to create transcript: b.mp3'',
         SpinnerStart ''Processing (3/3): sub/c.MP3'',
         Create \<lparr>req_file = ''/app/source/sub/c.MP3'', req_model = ''whisper-1'',
                 req_language = None, req_prompt = None\<rparr>,
         SpinnerFail ''Failed to create transcript: sub/c.MP3'',
         ConsoleLog ''=================================================='',
         ConsoleLog ''Processing completed'',
         ConsoleLog ''  - Total files: 3'',
         ConsoleLog ''  - Successful: 1'',
         ConsoleLog ''  - Failed: 2'',
         ConsoleLog ''==================================================''],
      exit_status = 0\<rparr>"
proof -
  have loop: "process_files demo_world demo_options
                (length [''/app/source/a.wav'', ''/app/source/b.mp3'', ''/app/source/sub/c.MP3''])
                [''/app/source/a.wav'', ''/app/source/b.mp3'', ''/app/source/sub/c.MP3''] 0 0 =
              process_files demo_world demo_options 3
                [''/app/source/a.wav'', ''/app/source/b.mp3'', ''/app/source/sub/c.MP3''] 0 0"
    by (simp only: list.size add_0 One_nat_def add_Suc_right add_Suc numeral_3_eq_3)
  have found: "findAudioFiles demo_world (SOURCE_DIR demo_world) (source_entries demo_world) =
                 ([Readdir ''/app/source'', Readdir ''/app/source/sub''],
                  Inr [''/app/source/a.wav'', ''/app/source/b.mp3'', ''/app/source/sub/c.MP3''])"
    by (simp only: demo_dirs demo_world_fields demo_discovery)
  have "truthy_string (OPENAI_API_KEY demo_world)"
    and "truthy (MODELS_get (opt_model demo_options))"
    and "mkdir_error demo_world (SOURCE_DIR demo_world) = None"
    and "mkdir_error demo_world (OUTPUT_DIR demo_world) = None"
    and "[''/app/source/a.wav'', ''/app/source/b.mp3'', ''/app/source/sub/c.MP3''] \<noteq> []"
    by (simp_all add: demo_world_fields demo_options_fields MODELS_get_def MODELS_def)
  from main_batch[OF this(1-4) found this(5) loop[unfolded demo_loop]]
  show ?thesis
    by (simp add: demo_dirs demo_options_fields banner_def rule_line_def
        debug_information_def summary_def show_nat.simps digit_char_def eval_nat_numeral)
qed

lemma solo_main:
  "main solo_world demo_options =
     \<lparr>trace =
        [ConsoleLog ''=================================================='',
         ConsoleLog ''Whisper Audio Transcription App'',
         ConsoleLog ''=================================================='',
         Mkdir ''/app/source'', Mkdir ''/app/transcriptions'',
         SpinnerStart ''Searching for audio files...'',
         Readdir ''/app/source'',
         SpinnerSucceed ''Found 1 audio files'',
         ConsoleLog ''\<newline>Starting processing...'',
         SpinnerStart ''Processing (1/1): a.wav'',
         Create \<lparr>req_file = ''/app/source/a.wav'', req_model = ''whisper-1'',
                 req_language = None, req_prompt = None\<rparr>,
         WriteFile ''/app/transcriptions/a.txt'' ''hello'',
         SpinnerSucceed ''Transcript completed: a.txt'',
         ConsoleLog ''=================================================='',
         ConsoleLog ''Processing completed'',
         ConsoleLog ''  - Total files: 1'',
         ConsoleLog ''  - Successful: 1'',
         ConsoleLog ''==================================================''],
      exit_status = 0\<rparr>"
  by (simp add: solo_world_def main_def main_try_def MODELS_get_def MODELS_def
      SOURCE_DIR_def OUTPUT_DIR_def output_file_def transcribeAudio_def Let_def
      demo_world_fields demo_options_fields banner_def rule_line_def debug_information_def
      summary_def show_nat.simps digit_char_def eval_nat_numeral path_simps
      SUPPORTED_FORMATS_def)

lemma silent_main:
  "main silent_world demo_options =
     \<lparr>trace =
        [ConsoleLog ''=================================================='',
         ConsoleLog ''Whisper Audio Transcription App'',
         ConsoleLog ''=================================================='',
         Mkdir ''/app/source'', Mkdir ''/app/transcriptions'',
         SpinnerStart ''Searching for audio files...'',
         Readdir ''/app/source'', Readdir ''/app/source/empty'',
         SpinnerSucceed ''Found 0 audio files'',
         ConsoleLog ''No audio files to process in the source folder.'',
         ConsoleLog ''Supported formats: .mp3, .mp4, .mpeg, .mpga, .m4a, .wav, .webm''],
      exit_status = 0\<rparr>"
  by (simp add: silent_world_def main_def main_try_def MODELS_get_def MODELS_def
      SOURCE_DIR_def OUTPUT_DIR_def Let_def
      demo_world_fields demo_options_fields banner_def rule_line_def debug_information_def
      show_nat.simps digit_char_def eval_nat_numeral path_simps SUPPORTED_FORMATS_def)




lemma demo_well_formed: "well_formed (source_entries demo_world)"
  by (simp add: demo_world_fields valid_name_def)

lemma demo_tree_files:
  "tree_files ''/app/source'' (source_entries demo_world) =
     [(''/app/source/a.wav'', ''a.wav''), (''/app/source/b.mp3'', ''b.mp3''),
      (''/app/source/notes.txt'', ''notes.txt''), (''/app/source/sub/c.MP3'', ''c.MP3''),
      (''/app/source/sub/.mp3'', ''.mp3'')]"
  by (simp add: demo_world_fields path_join_def)

lemma demo_supported:
  "has_supported_extension ''a.wav''" "has_supported_extension ''b.mp3''"
  "\<not> has_supported_extension ''notes.txt''" "has_supported_extension ''c.MP3''"
  "\<not> has_supported_extension ''.mp3''"
  by (simp_all add: has_supported_extension_def path_simps)

section \<open>The claims\<close>

subsection \<open>C1: the counts of the summary\<close>

text \<open>
  Claim C1, as stated, asks the summary to report total, succeeded and failed for every
  number of successes from 0 to K. The script prints the failed count only when a file
  failed, and prints no summary at all for an empty batch. The first run below has one
  file, which is transcribed (K = 1, S = 1): the summary gives the total and the
  successes, and no line giving the failed count. The second run finds no audio file
  (K = 0): no total is reported.
\<close>

theorem summary_counts_counterexample:
  "snd (findAudioFiles solo_world (SOURCE_DIR solo_world) (source_entries solo_world)) =
     Inr [''/app/source/a.wav'']
   \<and> succeeds solo_world demo_options ''/app/source/a.wav''
   \<and> ConsoleLog ''  - Total files: 1'' \<in> set (trace (main solo_world demo_options))
   \<and> ConsoleLog ''  - Successful: 1'' \<in> set (trace (main solo_world demo_options))
   \<and> ConsoleLog ''  - Failed: 0'' \<notin> set (trace (main solo_world demo_options))
   \<and> snd (findAudioFiles silent_world (SOURCE_DIR silent_world) (source_entries silent_world)) =
     Inr []
   \<and> ConsoleLog ''  - Total files: 0'' \<notin> set (trace (main silent_world demo_options))"
  by (simp add: solo_main silent_main)
     (simp add: solo_world_def silent_world_def SOURCE_DIR_def demo_world_fields
       demo_options_fields succeeds_iff request_for_def path_simps SUPPORTED_FORMATS_def Let_def)

text \<open>
  Claim C1, amended. For a run that passes the preconditions, meets no file-system
  error and discovers K files, K at least 1, of which S are transcribed (the call
  returns a non-empty text), the output ends with the summary: the two header lines,
  total = K, succeeded = S, then failed = K - S when S is less than K and no failed line
  when S = K, then the closing rule.
\<close>

theorem summary_counts:
  assumes "truthy_string (OPENAI_API_KEY w)"
    and "truthy (MODELS_get (opt_model options))"
    and "mkdir_error w (SOURCE_DIR w) = None"
    and "mkdir_error w (OUTPUT_DIR w) = None"
    and "snd (findAudioFiles w (SOURCE_DIR w) (source_entries w)) = Inr files"
    and "\<And>p c. writeFile_error w p c = None"
    and "files \<noteq> []"
    and "K = length files"
    and "S = length (filter (succeeds w options) files)"
  shows "suffix
           ([ConsoleLog ''=================================================='',
             ConsoleLog ''Processing completed'',
             ConsoleLog (''  - Total files: '' @ show_nat K),
             ConsoleLog (''  - Successful: '' @ show_nat S)]
            @ (if S < K then [ConsoleLog (''  - Failed: '' @ show_nat (K - S))] else [])
            @ [ConsoleLog ''==================================================''])
           (trace (main w options))"
proof -
  have "summary K S =
          [ConsoleLog ''=================================================='',
           ConsoleLog ''Processing completed'',
           ConsoleLog (''  - Total files: '' @ show_nat K),
           ConsoleLog (''  - Successful: '' @ show_nat S)]
          @ (if S < K then [ConsoleLog (''  - Failed: '' @ show_nat (K - S))] else [])
          @ [ConsoleLog ''=================================================='']"
    by (simp add: summary_def rule_line_def eval_nat_numeral)
  moreover have "suffix (summary K S) (trace (main w options))"
    unfolding main_run[OF assms(1-6)] using assms(7-9)
    by (simp add: suffix_def del: findAudioFiles.simps process_files.simps)
  ultimately show ?thesis by simp
qed

theorem summary_counts_witness:
  "suffix
     [ConsoleLog ''=================================================='',
      ConsoleLog ''Processing completed'',
      ConsoleLog ''  - Total files: 3'',
      ConsoleLog ''  - Successful: 1'',
      ConsoleLog ''  - Failed: 2'',
      ConsoleLog ''=================================================='']
     (trace (main demo_world demo_options))"
  using summary_counts[of demo_world demo_options
          "[''/app/source/a.wav'', ''/app/source/b.mp3'', ''/app/source/sub/c.MP3'']" 3 1]
  by (simp add: demo_world_fields demo_options_fields demo_dirs demo_discovery MODELS_get_def
      MODELS_def succeeds_iff request_for_def show_nat.simps digit_char_def
      del: findAudioFiles.simps)

subsection \<open>C2: the files of the output directory\<close>




subsection \<open>C3: the language option\<close>

text \<open>
  Claim C3. For every language option value, \<open>transcribeAudio\<close> calls the external
  transcription service exactly once, with the request described here: when the value
  is the sentinel \<open>auto\<close> the request has no language parameter, and for any other
  value it carries exactly that value; file, model and prompt are passed as given. The
  text returned is what the service answers to that very request, and the \<open>null\<close> of
  the \<open>catch\<close> branch when the service rejects it.
\<close>

theorem language_auto_is_omitted:
  assumes "req = \<lparr>req_file = filePath,
                  req_model = model,
                  req_language = (if language = ''auto'' then None else Some language),
                  req_prompt = prompt\<rparr>"
  shows "created (fst (transcribeAudio w options filePath model language prompt)) = [req]
       \<and> snd (transcribeAudio w options filePath model language prompt) =
           (case transcriptions_create w req of Inl error \<Rightarrow> None | Inr text \<Rightarrow> Some text)"
  unfolding assms by (simp add: transcribeAudio_def Let_def split: sum.splits)

theorem language_auto_is_omitted_witness:
  "created (fst (transcribeAudio picky_world demo_options ''/app/source/a.wav'' ''whisper-1''
                   ''auto'' None)) =
     [\<lparr>req_file = ''/app/source/a.wav'', req_model = ''whisper-1'',
       req_language = None, req_prompt = None\<rparr>]
   \<and> snd (transcribeAudio picky_world demo_options ''/app/source/a.wav'' ''whisper-1''
              ''auto'' None) = Some ''detected''
   \<and> created (fst (transcribeAudio picky_world demo_options ''/app/source/b.mp3'' ''whisper-1''
                   ''hu'' (Some ''Interview''))) =
     [\<lparr>req_file = ''/app/source/b.mp3'', req_model = ''whisper-1'',
       req_language = Some ''hu'', req_prompt = Some ''Interview''\<rparr>]
   \<and> snd (transcribeAudio picky_world demo_options ''/app/source/b.mp3'' ''whisper-1''
              ''hu'' (Some ''Interview'')) = Some ''hu''"
  using language_auto_is_omitted[OF refl, of picky_world demo_options "''/app/source/a.wav''"
          "''whisper-1''" "''auto''" None]
        language_auto_is_omitted[OF refl, of picky_world demo_options "''/app/source/b.mp3''"
          "''whisper-1''" "''hu''" "Some ''Interview''"]
  by (simp add: picky_world_def)

subsection \<open>C4: what discovery returns\<close>

text \<open>
  Claim C4. Let a directory tree, every directory of which can be listed, contain N
  files whose extension, lowercased, is one of the seven supported ones and M files
  with any other extension, at any depth. \<open>findAudioFiles\<close> returns the paths of the
  N files, in listing order, and nothing else: N paths in all. When the tree is what a
  file system holds (names without separator, no name twice in a directory), the
  returned paths are pairwise different, and the path of a file of the tree is returned
  exactly when the file is one of the N.
\<close>

theorem findAudioFiles_returns_supported_files:
  assumes "\<And>d. readdir_error w d = None"
    and "N = length (filter (\<lambda>(p, name). has_supported_extension name) (tree_files dir files))"
    and "M = length (filter (\<lambda>(p, name). \<not> has_supported_extension name) (tree_files dir files))"
    and "found = map fst (filter (\<lambda>(p, name). has_supported_extension name) (tree_files dir files))"
  shows "snd (findAudioFiles w dir files) = Inr found
       \<and> length found = N
       \<and> N + M = length (tree_files dir files)
       \<and> (well_formed files \<longrightarrow>
            distinct found
            \<and> (\<forall>(p, name)\<in>set (tree_files dir files).
                  p \<in> set found \<longleftrightarrow> has_supported_extension name))"
proof -
  let ?all = "tree_files dir files"
  let ?sup = "\<lambda>(p, name). has_supported_extension name"
  have res: "snd (findAudioFiles w dir files) = Inr found"
    using findAudioFiles_ok(1)[OF assms(1)] assms(4) by (simp add: audio_paths_def)
  have len: "length found = N" using assms(2,4) by simp
  have "M = length (filter (\<lambda>x. \<not> ?sup x) ?all)"
    unfolding assms(3) by (simp add: case_prod_unfold)
  then have sum: "N + M = length ?all"
    unfolding assms(2) using sum_length_filter_compl[of ?sup ?all] by simp
  have wf: "distinct found
            \<and> (\<forall>(p, name)\<in>set ?all. p \<in> set found \<longleftrightarrow> has_supported_extension name)"
    if "well_formed files"
  proof -
    have d: "distinct (map fst ?all)" by (rule tree_files_distinct[OF that])
    then have "distinct found" unfolding assms(4) by (rule distinct_map_filter)
    moreover have "p \<in> set found \<longleftrightarrow> has_supported_extension name"
      if pn: "(p, name) \<in> set ?all" for p name
    proof
      assume "p \<in> set found"
      then obtain n' where n': "(p, n') \<in> set ?all" "has_supported_extension n'"
        unfolding assms(4) by auto
      from d pn n'(1) have "n' = name" by (metis eq_key_imp_eq_value)
      with n'(2) show "has_supported_extension name" by simp
    next
      assume "has_supported_extension name"
      with pn show "p \<in> set found" unfolding assms(4) by force
    qed
    ultimately show ?thesis by auto
  qed
  from res len sum wf show ?thesis by blast
qed

theorem findAudioFiles_returns_supported_files_witness:
  "snd (findAudioFiles demo_world ''/app/source'' (source_entries demo_world)) =
     Inr [''/app/source/a.wav'', ''/app/source/b.mp3'', ''/app/source/sub/c.MP3'']
   \<and> length [''/app/source/a.wav'', ''/app/source/b.mp3'', ''/app/source/sub/c.MP3''] + 2 =
       length (tree_files ''/app/source'' (source_entries demo_world))
   \<and> distinct [''/app/source/a.wav'', ''/app/source/b.mp3'', ''/app/source/sub/c.MP3'']"
proof -
  have "\<And>d. readdir_error demo_world d = None" by (simp add: demo_world_fields)
  note inst = findAudioFiles_returns_supported_files[OF this refl refl refl,
      of "''/app/source''" "source_entries demo_world"]
  from inst demo_well_formed show ?thesis
    by (simp add: demo_tree_files demo_supported del: findAudioFiles.simps)
qed

subsection \<open>C5: a missing credential\<close>

text \<open>
  Claim C5. When the API key is absent, the run of the script ends with exit status 1
  before any directory is created or listed, before any call of the service and before
  any write. There are two ways to that end, and the statement covers both, for the
  absent key and for the empty one. When the constructor of the client throws (as the
  client does for a key that is not given), the error is uncaught, the process ends
  there and \<open>main\<close> is not entered: nothing is printed by the script. When the client is
  constructed (as for an empty key), \<open>main\<close> prints the banner and the error message of
  line 107 and exits.
\<close>

theorem missing_key_stops_run:
  assumes "OPENAI_API_KEY w = None \<or> OPENAI_API_KEY w = Some []"
  shows "exit_status (script w options) = 1
       \<and> trace (script w options) =
           (case new_OpenAI_error w (OPENAI_API_KEY w) of
              Some error \<Rightarrow> [UncaughtException error]
            | None \<Rightarrow>
                banner @ [ConsoleError ''Error: OPENAI_API_KEY is not set in the .env file!''])
       \<and> listed (trace (script w options)) = []
       \<and> created (trace (script w options)) = []
       \<and> written (trace (script w options)) = []"
proof -
  from assms have "\<not> truthy_string (OPENAI_API_KEY w)" by auto
  then show ?thesis
    by (simp add: script_def main_def banner_def split: option.splits)
qed

theorem missing_key_stops_run_witness:
  "exit_status (script (demo_world\<lparr>OPENAI_API_KEY := None\<rparr>) demo_options) = 1
   \<and> trace (script (demo_world\<lparr>OPENAI_API_KEY := None\<rparr>) demo_options) =
       [UncaughtException (Error ''The OPENAI_API_KEY environment variable is missing or empty'')]
   \<and> exit_status (script (demo_world\<lparr>OPENAI_API_KEY := Some []\<rparr>) demo_options) = 1
   \<and> trace (script (demo_world\<lparr>OPENAI_API_KEY := Some []\<rparr>) demo_options) =
       [ConsoleLog ''=================================================='',
        ConsoleLog ''Whisper Audio Transcription App'',
        ConsoleLog ''=================================================='',
        ConsoleError ''Error: OPENAI_API_KEY is not set in the .env file!'']
   \<and> listed (trace (script (demo_world\<lparr>OPENAI_API_KEY := None\<rparr>) demo_options)) = []
   \<and> created (trace (script (demo_world\<lparr>OPENAI_API_KEY := None\<rparr>) demo_options)) = []"
  using missing_key_stops_run[of "demo_world\<lparr>OPENAI_API_KEY := None\<rparr>" demo_options]
        missing_key_stops_run[of "demo_world\<lparr>OPENAI_API_KEY := Some []\<rparr>" demo_options]
  by (simp add: demo_world_fields banner_def rule_line_def eval_nat_numeral)

subsection \<open>C6: a model that is not offered\<close>

text \<open>
  Claim C6 holds for a model identifier that \<open>MODELS[\<dots>]\<close> does not find. The check
  \<open>!MODELS[options.model]\<close> also finds what the object inherits: \<open>constructor\<close> is not
  a key of \<open>MODELS\<close>, yet with \<open>--model constructor\<close> the run below passes the check,
  lists the source directory, calls the service for all three files with that model and
  ends with exit status 0.
\<close>

theorem inherited_key_passes_model_check:
  "map_of MODELS ''constructor'' = None
   \<and> exit_status (main demo_world constructor_options) = 0
   \<and> listed (trace (main demo_world constructor_options)) =
       [''/app/source'', ''/app/source/sub'']
   \<and> created (trace (main demo_world constructor_options)) =
       [\<lparr>req_file = ''/app/source/a.wav'', req_model = ''constructor'',
          req_language = None, req_prompt = None\<rparr>,
        \<lparr>req_file = ''/app/source/b.mp3'', req_model = ''constructor'',
          req_language = None, req_prompt = None\<rparr>,
        \<lparr>req_file = ''/app/source/sub/c.MP3'', req_model = ''constructor'',
          req_language = None, req_prompt = None\<rparr>]"
proof -
  let ?files = "[''/app/source/a.wav'', ''/app/source/b.mp3'', ''/app/source/sub/c.MP3'']"
  have pre: "truthy_string (OPENAI_API_KEY demo_world)"
    "truthy (MODELS_get (opt_model constructor_options))"
    "mkdir_error demo_world (SOURCE_DIR demo_world) = None"
    "mkdir_error demo_world (OUTPUT_DIR demo_world) = None"
    "snd (findAudioFiles demo_world (SOURCE_DIR demo_world) (source_entries demo_world)) =
       Inr ?files"
    "\<And>p c. writeFile_error demo_world p c = None"
    by (simp_all add: demo_world_fields constructor_options_def MODELS_get_def MODELS_def
        demo_dirs demo_discovery del: findAudioFiles.simps)
  have "map_of MODELS ''constructor'' = None" by (simp add: MODELS_def)
  moreover have "exit_status (main demo_world constructor_options) = 0"
    by (simp add: main_run[OF pre])
  moreover have "listed (trace (main demo_world constructor_options)) =
                   [''/app/source'', ''/app/source/sub'']"
    by (simp add: main_run[OF pre] listed_append fixed_events process_files_listed
        demo_dirs demo_world_fields demo_discovery summary_def
        del: findAudioFiles.simps process_files.simps)
  moreover have "created (trace (main demo_world constructor_options)) =
                   map (request_for constructor_options) ?files"
    by (rule main_created[OF pre])
  ultimately show ?thesis
    by (simp add: request_for_def constructor_options_def demo_options_fields)
qed

subsection \<open>C7: a failing call does not stop the batch\<close>

text \<open>
  Claim C7. In a run that passes the preconditions and meets no file-system error, the
  service is called once for every discovered file, in order, whatever the earlier
  calls answered; a file whose call is rejected is not a success, its name and the
  error's message are written to the error output and its spinner fails; the summary
  counts the files that are not successes as failed; and the exit status is 0, for any
  number of failures, all files included. The last part is the single iteration: when
  the call for a file is rejected, the iteration prints the two error messages (and the
  error itself in debug mode), fails the spinner, and the loop goes on with the next
  file and the same \<open>successCount\<close>.
\<close>

theorem failed_call_is_recorded:
  assumes "truthy_string (OPENAI_API_KEY w)"
    and "truthy (MODELS_get (opt_model options))"
    and "mkdir_error w (SOURCE_DIR w) = None"
    and "mkdir_error w (OUTPUT_DIR w) = None"
    and "snd (findAudioFiles w (SOURCE_DIR w) (source_entries w)) = Inr files"
    and "\<And>p c. writeFile_error w p c = None"
  shows "exit_status (main w options) = 0
       \<and> created (trace (main w options)) = map (request_for options) files
       \<and> (\<forall>f\<in>set files. \<forall>e. transcriptions_create w (request_for options f) = Inl e \<longrightarrow>
             \<not> succeeds w options f
             \<and> ConsoleError (''Error transcribing '' @ basename f [] @ '':'')
                 \<in> set (trace (main w options))
             \<and> ConsoleError (message e) \<in> set (trace (main w options))
             \<and> SpinnerFail (''Failed to create transcript: '' @ path_relative (SOURCE_DIR w) f)
                 \<in> set (trace (main w options)))
       \<and> ((\<exists>f\<in>set files. \<not> succeeds w options f) \<longrightarrow>
             ConsoleLog (''  - Failed: ''
                         @ show_nat (length (filter (\<lambda>f. \<not> succeeds w options f) files)))
               \<in> set (trace (main w options)))
       \<and> (\<forall>f e len rest i sc.
             transcriptions_create w (request_for options f) = Inl e \<longrightarrow>
             fst (process_files w options len (f # rest) i sc) =
               [SpinnerStart (''Processing ('' @ show_nat (i + 1) @ ''/'' @ show_nat len @ ''): ''
                              @ path_relative (SOURCE_DIR w) f),
                Create (request_for options f),
                ConsoleError (''Error transcribing '' @ basename f [] @ '':''),
                ConsoleError (message e)]
               @ (if opt_debug options then [ConsoleErrorObject e] else [])
               @ [SpinnerFail (''Failed to create transcript: '' @ path_relative (SOURCE_DIR w) f)]
               @ fst (process_files w options len rest (i + 1) sc)
             \<and> snd (process_files w options len (f # rest) i sc) =
                 snd (process_files w options len rest (i + 1) sc))"
proof -
  note run = main_run[OF assms]
  have exit: "exit_status (main w options) = 0" by (simp add: run)
  have calls: "created (trace (main w options)) = map (request_for options) files"
    by (rule main_created[OF assms])
  have logged: "\<not> succeeds w options f
             \<and> ConsoleError (''Error transcribing '' @ basename f [] @ '':'')
                 \<in> set (trace (main w options))
             \<and> ConsoleError (message e) \<in> set (trace (main w options))
             \<and> SpinnerFail (''Failed to create transcript: '' @ path_relative (SOURCE_DIR w) f)
                 \<in> set (trace (main w options))"
    if f: "f \<in> set files" and e: "transcriptions_create w (request_for options f) = Inl e"
    for f e
  proof -
    from f have ne: "files \<noteq> []" by auto
    have "\<not> succeeds w options f" using e by (simp add: succeeds_iff)
    moreover note process_files_failure_logged[OF assms(6) f e, of "length files" 0 0]
    ultimately show ?thesis
      using ne by (simp add: run del: findAudioFiles.simps process_files.simps)
  qed
  have counted: "ConsoleLog (''  - Failed: ''
                         @ show_nat (length (filter (\<lambda>f. \<not> succeeds w options f) files)))
               \<in> set (trace (main w options))"
    if "\<exists>f\<in>set files. \<not> succeeds w options f"
  proof -
    from that have ne: "files \<noteq> []" by auto
    from that have "length (filter (succeeds w options) files) < length files"
      by (metis length_filter_less)
    then show ?thesis
      using ne
      by (simp add: run summary_def count_failed del: findAudioFiles.simps process_files.simps)
  qed
  show ?thesis
    using exit calls logged counted process_files_Cons_failure[of w options]
    by (intro conjI ballI allI impI) blast+
qed

theorem failed_call_is_recorded_witness:
  "exit_status (main demo_world demo_options) = 0
   \<and> created (trace (main demo_world demo_options)) =
       [\<lparr>req_file = ''/app/source/a.wav'', req_model = ''whisper-1'',
          req_language = None, req_prompt = None\<rparr>,
        \<lparr>req_file = ''/app/source/b.mp3'', req_model = ''whisper-1'',
          req_language = None, req_prompt = None\<rparr>,
        \<lparr>req_file = ''/app/source/sub/c.MP3'', req_model = ''whisper-1'',
          req_language = None, req_prompt = None\<rparr>]
   \<and> ConsoleError ''Error transcribing b.mp3:'' \<in> set (trace (main demo_world demo_options))
   \<and> ConsoleError ''Connection error.'' \<in> set (trace (main demo_world demo_options))
   \<and> SpinnerFail ''Failed to create transcript: b.mp3''
       \<in> set (trace (main demo_world demo_options))
   \<and> ConsoleLog ''  - Failed: 2'' \<in> set (trace (main demo_world demo_options))"
proof -
  let ?files = "[''/app/source/a.wav'', ''/app/source/b.mp3'', ''/app/source/sub/c.MP3'']"
  have "truthy_string (OPENAI_API_KEY demo_world)"
    and "truthy (MODELS_get (opt_model demo_options))"
    and "mkdir_error demo_world (SOURCE_DIR demo_world) = None"
    and "mkdir_error demo_world (OUTPUT_DIR demo_world) = None"
    and "snd (findAudioFiles demo_world (SOURCE_DIR demo_world) (source_entries demo_world)) =
           Inr ?files"
    and "\<And>p c. writeFile_error demo_world p c = None"
    by (simp_all add: demo_world_fields demo_options_fields demo_dirs demo_discovery
        MODELS_get_def MODELS_def del: findAudioFiles.simps)
  note inst = failed_call_is_recorded[OF this]
  note exit = inst[THEN conjunct1]
  note calls = inst[THEN conjunct2, THEN conjunct1]
  note logged = inst[THEN conjunct2, THEN conjunct2, THEN conjunct1]
  note counted = inst[THEN conjunct2, THEN conjunct2, THEN conjunct2, THEN conjunct1]
  have b: "transcriptions_create demo_world (request_for demo_options ''/app/source/b.mp3'') =
           Inl (Error ''Connection error.'')"
    by (simp add: demo_world_fields request_for_def)
  have nb: "\<not> succeeds demo_world demo_options ''/app/source/b.mp3''"
    and nc: "\<not> succeeds demo_world demo_options ''/app/source/sub/c.MP3''"
    and a: "succeeds demo_world demo_options ''/app/source/a.wav''"
    by (simp_all add: succeeds_iff demo_world_fields request_for_def)
  have base: "basename ''/app/source/b.mp3'' [] = ''b.mp3''"
    and rel: "path_relative (SOURCE_DIR demo_world) ''/app/source/b.mp3'' = ''b.mp3''"
    by (simp_all add: path_simps demo_dirs)
  from exit calls logged counted b nb nc a base rel show ?thesis
    by (simp add: request_for_def demo_options_fields show_nat.simps digit_char_def)
qed

subsection \<open>C8: a run that finds no audio file\<close>

text \<open>
  Claim C8, as stated, has the run emit a summary reporting total = 0. The script leaves
  through \<open>process.exit(0)\<close> before the summary: in the run below the source directory
  holds a text file and an empty directory, discovery returns no path, and neither the
  heading of the summary nor a total is printed.
\<close>

theorem no_files_counterexample:
  "snd (findAudioFiles silent_world (SOURCE_DIR silent_world) (source_entries silent_world)) =
     Inr []
   \<and> ConsoleLog ''Processing completed'' \<notin> set (trace (main silent_world demo_options))
   \<and> ConsoleLog ''  - Total files: 0'' \<notin> set (trace (main silent_world demo_options))
   \<and> exit_status (main silent_world demo_options) = 0"
  by (simp add: silent_main)
     (simp add: silent_world_def SOURCE_DIR_def demo_world_fields path_simps
       SUPPORTED_FORMATS_def Let_def)

text \<open>
  Claim C8, amended. When discovery finds no audio file, the run reports
  \<open>Found 0 audio files\<close>, prints the notice that there is nothing to process and the
  list of supported formats, and stops there with exit status 0: the output ends with
  these three messages (the summary block is not printed), the service is never called
  and no file is written.
\<close>

theorem no_files_run:
  assumes "truthy_string (OPENAI_API_KEY w)"
    and "truthy (MODELS_get (opt_model options))"
    and "mkdir_error w (SOURCE_DIR w) = None"
    and "mkdir_error w (OUTPUT_DIR w) = None"
    and "snd (findAudioFiles w (SOURCE_DIR w) (source_entries w)) = Inr []"
  shows "exit_status (main w options) = 0
       \<and> trace (main w options) =
           banner @ debug_information w options
           @ [Mkdir (SOURCE_DIR w), Mkdir (OUTPUT_DIR w),
              SpinnerStart ''Searching for audio files...'']
           @ fst (findAudioFiles w (SOURCE_DIR w) (source_entries w))
           @ [SpinnerSucceed ''Found 0 audio files'',
              ConsoleLog ''No audio files to process in the source folder.'',
              ConsoleLog ''Supported formats: .mp3, .mp4, .mpeg, .mpga, .m4a, .wav, .webm'']
       \<and> created (trace (main w options)) = []
       \<and> written (trace (main w options)) = []"
proof -
  obtain devs where d: "findAudioFiles w (SOURCE_DIR w) (source_entries w) = (devs, Inr [])"
    using assms(5) by (cases "findAudioFiles w (SOURCE_DIR w) (source_entries w)") auto
  have ev: "written devs = []" "created devs = []"
    using findAudioFiles_events(1)[of w "SOURCE_DIR w" "source_entries w"] d by simp_all
  show ?thesis
    unfolding main_empty[OF assms(1-4) d] using d ev
    by (simp add: written_append created_append fixed_events del: findAudioFiles.simps)
qed

theorem no_files_run_witness:
  "exit_status (main silent_world demo_options) = 0
   \<and> created (trace (main silent_world demo_options)) = []
   \<and> written (trace (main silent_world demo_options)) = []"
  using no_files_run[of silent_world demo_options]
  by (simp add: silent_world_def SOURCE_DIR_def OUTPUT_DIR_def demo_world_fields
      demo_options_fields MODELS_get_def MODELS_def path_simps SUPPORTED_FORMATS_def Let_def
      created_append written_append fixed_events)

subsection \<open>C9: where a transcript is written\<close>

text \<open>
  Claim C9. Take any input file, that is a valid entry name in any directory, whose
  call returns a non-empty text and whose write does not raise. Its iteration of the
  loop makes exactly one write: the text, to the output directory joined with the
  entry name without its extension followed by \<open>.txt\<close>; the directory of the input
  does not occur in that path. The write replaces whatever the output directory held
  under that path: after the iteration the path holds exactly the returned text.
\<close>

theorem transcript_is_written_flat:
  assumes "valid_name name"
    and "audioFile = path_join dir name"
    and "outputFile = path_join (OUTPUT_DIR w) (strip_extension name @ ''.txt'')"
    and "transcriptions_create w (request_for options audioFile) = Inr text"
    and "text \<noteq> []"
    and "writeFile_error w outputFile text = None"
  shows "written (fst (process_files w options len (audioFile # rest) i successCount)) =
           (outputFile, text) # written (fst (process_files w options len rest (i + 1) (successCount + 1)))
       \<and> files_after w (fst (process_files w options len [audioFile] i successCount)) fs =
           fs(outputFile \<mapsto> text)"
proof -
  have out: "output_file w audioFile = outputFile"
    using assms(1-3) by (simp add: output_file_path_join)
  note step = process_files_Cons_success[OF assms(4,5) assms(6)[folded out]]
  show ?thesis
    using assms(6)
    by (simp add: step out del: process_files.simps(2))
qed

theorem transcript_is_written_flat_witness:
  "written (fst (process_files demo_world demo_options 3
                   [''/app/source/a.wav'', ''/app/source/b.mp3''] 0 0)) =
     (''/app/transcriptions/a.txt'', ''hello'')
     # written (fst (process_files demo_world demo_options 3 [''/app/source/b.mp3''] 1 1))
   \<and> files_after demo_world
         (fst (process_files demo_world demo_options 3 [''/app/source/a.wav''] 0 0))
         [''/app/transcriptions/a.txt'' \<mapsto> ''stale text''] =
       [''/app/transcriptions/a.txt'' \<mapsto> ''hello'']"
proof -
  have v: "valid_name ''a.wav''" by (simp add: valid_name_def)
  have a: "''/app/source/a.wav'' = path_join ''/app/source'' ''a.wav''"
    by (simp add: path_join_def)
  have o: "''/app/transcriptions/a.txt'' =
           path_join (OUTPUT_DIR demo_world) (strip_extension ''a.wav'' @ ''.txt'')"
    by (simp add: demo_dirs strip_extension_def path_simps)
  have t: "transcriptions_create demo_world (request_for demo_options ''/app/source/a.wav'') =
           Inr ''hello''"
    by (simp add: demo_world_fields request_for_def)
  have n: "''hello'' \<noteq> []" by simp
  have e: "writeFile_error demo_world ''/app/transcriptions/a.txt'' ''hello'' = None"
    by (simp add: demo_world_fields)
  from transcript_is_written_flat[OF v a o t n e, of 3 "[''/app/source/b.mp3'']" 0 0
         "[''/app/transcriptions/a.txt'' \<mapsto> ''stale text'']"]
       transcript_is_written_flat[OF v a o t n e, of 3 "[]" 0 0
         "[''/app/transcriptions/a.txt'' \<mapsto> ''stale text'']"]
  show ?thesis by simp
qed

subsection \<open>C10: an empty transcript\<close>

text \<open>
  Claim C10. When the external call for a file succeeds but returns the empty string,
  the iteration of the processing loop for that file consists of the spinner start, the
  call and the spinner failure: no \<open>writeFile\<close> is made for it, and the rest of the
  loop runs with \<open>successCount\<close> unchanged, so the file is not counted as a success.
\<close>

theorem empty_text_is_a_failure:
  assumes "transcriptions_create w (request_for options audioFile) = Inr []"
  shows "fst (process_files w options len (audioFile # rest) i successCount) =
           [SpinnerStart (''Processing ('' @ show_nat (i + 1) @ ''/'' @ show_nat len @ ''): ''
                          @ path_relative (SOURCE_DIR w) audioFile),
            Create (request_for options audioFile),
            SpinnerFail (''Failed to create transcript: '' @ path_relative (SOURCE_DIR w) audioFile)]
           @ fst (process_files w options len rest (i + 1) successCount)
       \<and> snd (process_files w options len (audioFile # rest) i successCount) =
           snd (process_files w options len rest (i + 1) successCount)
       \<and> \<not> succeeds w options audioFile"
proof -
  have "\<not> succeeds w options audioFile"
    using assms by (simp add: succeeds_iff)
  moreover have "fst (transcribe w options audioFile) = [Create (request_for options audioFile)]"
    using assms by (simp add: transcribe_cases)
  ultimately show ?thesis
    by (simp add: process_files_Cons Let_def del: process_files.simps)
qed

theorem empty_text_is_a_failure_witness:
  "fst (process_files demo_world demo_options 3 [''/app/source/sub/c.MP3''] 2 1) =
     [SpinnerStart ''Processing (3/3): sub/c.MP3'',
      Create \<lparr>req_file = ''/app/source/sub/c.MP3'', req_model = ''whisper-1'',
              req_language = None, req_prompt = None\<rparr>,
      SpinnerFail ''Failed to create transcript: sub/c.MP3'']
   \<and> snd (process_files demo_world demo_options 3 [''/app/source/sub/c.MP3''] 2 1) = Inr 1"
  using empty_text_is_a_failure[of demo_world demo_options "''/app/source/sub/c.MP3''" 3 "[]" 2 1]
  by (simp add: request_for_def demo_world_fields demo_options_fields demo_dirs
      show_nat.simps digit_char_def path_relative_def del: process_files.simps(2))

end
